theory Spec2Isabelle
  imports Main "HOL-Library.Word"
begin

section \<open>Data model of \<^verbatim>\<open>ansibledriver/service/process.py\<close>\<close>

text \<open>
  A request is a Python dict keyed by strings. The values stay abstract (type \<open>'v\<close>):
  the module only tests keys for presence and copies the value of \<open>request_id\<close>.
\<close>

type_synonym 'v request = "string \<rightharpoonup> 'v"

text \<open>
  The classes and constants the module imports from the \<^verbatim>\<open>ignition\<close> library, with the
  constructor arguments in the order the module passes them.
\<close>

datatype status = STATUS_COMPLETE | STATUS_FAILED | STATUS_IN_PROGRESS

datatype failure_code =
    FAILURE_CODE_INFRASTRUCTURE_ERROR
  | FAILURE_CODE_INTERNAL_ERROR
  | FAILURE_CODE_RESOURCE_NOT_FOUND
  | FAILURE_CODE_INSUFFICIENT_CAPACITY

datatype FailureDetails =
  FailureDetails (failure_code: failure_code) (description: string)

datatype 'v LifecycleExecution =
  LifecycleExecution (request_id: 'v) (status: status)
    (failure_details: "FailureDetails option") (outputs: "string \<rightharpoonup> 'v")

text \<open>
  Exceptions are values. \<open>str\<close> is Python's \<^verbatim>\<open>str(e)\<close>, which is what
  \<^verbatim>\<open>"...{0}".format(e)\<close> inserts; for a \<^verbatim>\<open>KeyError\<close> it is the quoted key. An
  \<^verbatim>\<open>AttributeError\<close> carries the name of the attribute that the service object lacks.
\<close>

datatype exn =
    ValueError string
  | KeyError string
  | AttributeError string
  | Exception string

fun str :: "exn \<Rightarrow> string" where
  "str (ValueError m) = m"
| "str (KeyError k) = CHR 0x27 # k @ [CHR 0x27]"
| "str (AttributeError a) =
     CHR 0x27 # ''AnsibleProcessorService'' @ CHR 0x27 # '' object has no attribute '' @
     CHR 0x27 # a @ [CHR 0x27]"
| "str (Exception m) = m"

text \<open>
  What one call of \<^verbatim>\<open>ansible_client.run_lifecycle_playbook(request)\<close> does: it returns
  a response, returns \<^verbatim>\<open>None\<close>, or raises.
\<close>

datatype 'v outcome = Returns "'v LifecycleExecution option" | Raises exn

text \<open>What the request queue holds: a request, or the shutdown sentinel.\<close>

datatype 'v item = Request "'v request" | SHUTDOWN_MESSAGE

record ProcessProperties =
  process_pool_size :: int
  max_concurrent_ansible_processes :: int
  max_queue_size :: int
  use_pool :: bool
  is_threaded :: bool

definition ProcessProperties_init :: ProcessProperties where
  "ProcessProperties_init =
     \<lparr>process_pool_size = 10, max_concurrent_ansible_processes = 10,
      max_queue_size = 100, use_pool = False, is_threaded = False\<rparr>"

subsection \<open>Counter\<close>

text \<open>
  \<^verbatim>\<open>RawValue('i', value)\<close> is a C \<^verbatim>\<open>int\<close> in shared memory: 32 bits, two's complement.
  Storing into its \<^verbatim>\<open>value\<close> keeps the low 32 bits, so \<^verbatim>\<open>+= 1\<close> and \<^verbatim>\<open>-= 1\<close> wrap;
  reading it gives the signed value. The lock only serialises the three methods.
\<close>

type_synonym Counter = "32 word"

definition Counter_init :: "int \<Rightarrow> Counter" where
  "Counter_init v = word_of_int v"

definition increment :: "Counter \<Rightarrow> Counter" where
  "increment val = val + 1"

definition decrement :: "Counter \<Rightarrow> Counter" where
  "decrement val = val - 1"

definition Counter_value :: "Counter \<Rightarrow> int" where
  "Counter_value val = sint val"

subsection \<open>The service object and the calls it makes\<close>

datatype variant = Thread | Process

text \<open>
  The calls made on the collaborators, in the order they happen: the methods of the
  request queue, \<^verbatim>\<open>messaging_service.send_lifecycle_execution\<close>, \<^verbatim>\<open>send_pipe.close\<close>,
  and the start of a worker.
\<close>

datatype 'v event =
    Q_size
  | Q_put "'v item"
  | Q_next
  | Q_task_done
  | Q_shutdown
  | Q_queue_status
  | Send_lifecycle_execution "'v LifecycleExecution"
  | Pipe_close
  | Worker_start variant "'v request"

text \<open>
  The state shared by the facade and its threads: the fields of
  \<^verbatim>\<open>AnsibleProcessorService\<close>, the contents of the request queue and of the pipe, the
  workers started and not yet run, and the calls made so far.
\<close>

record 'v service =
  process_properties :: ProcessProperties
  request_queue :: "'v item list"
  counter :: Counter
  pipe :: "'v LifecycleExecution list"
  workers :: "(variant \<times> 'v request) list"
  active :: bool
  trace :: "'v event list"

definition log :: "'v event \<Rightarrow> 'v service \<Rightarrow> 'v service" where
  "log e s = s\<lparr>trace := trace s @ [e]\<rparr>"

text \<open>The calls of an operation that took \<open>s\<close> to \<open>s'\<close>.\<close>

definition calls :: "'v service \<Rightarrow> 'v service \<Rightarrow> 'v event list" where
  "calls s s' = drop (length (trace s)) (trace s')"

subsection \<open>The request queue\<close>

text \<open>
  Modelled from the spec: the class \<^verbatim>\<open>RequestQueue\<close> of \<^verbatim>\<open>ansibledriver/service/queue.py\<close>
  is not among the sources. The spec gives its contract: an ordered sequence with FIFO
  delivery; \<^verbatim>\<open>put\<close> inserts at the back; \<^verbatim>\<open>next\<close> gives the front request, or nothing
  when its internal timeout passes on an empty queue; \<^verbatim>\<open>size\<close> is the current depth;
  \<^verbatim>\<open>task_done\<close> acknowledges the most recent \<^verbatim>\<open>next\<close>; \<^verbatim>\<open>shutdown\<close> delivers the
  SHUTDOWN sentinel; \<^verbatim>\<open>queue_status\<close> is a snapshot of the depth without side effects.
  The contract names no failure of these methods, so each returns normally. It does not
  say what a \<^verbatim>\<open>put\<close> after \<^verbatim>\<open>shutdown\<close> does; here it inserts as before.
\<close>

definition RequestQueue_size :: "'v service \<Rightarrow> int \<times> 'v service" where
  "RequestQueue_size s = (int (length (request_queue s)), log Q_size s)"

definition RequestQueue_put :: "'v item \<Rightarrow> 'v service \<Rightarrow> 'v service" where
  "RequestQueue_put x s = log (Q_put x) (s\<lparr>request_queue := request_queue s @ [x]\<rparr>)"

definition RequestQueue_next :: "'v service \<Rightarrow> 'v item option \<times> 'v service" where
  "RequestQueue_next s =
     (case request_queue s of
        [] \<Rightarrow> (None, log Q_next s)
      | x # xs \<Rightarrow> (Some x, log Q_next (s\<lparr>request_queue := xs\<rparr>)))"

definition RequestQueue_task_done :: "'v service \<Rightarrow> 'v service" where
  "RequestQueue_task_done s = log Q_task_done s"

definition RequestQueue_shutdown :: "'v service \<Rightarrow> 'v service" where
  "RequestQueue_shutdown s =
     log Q_shutdown (s\<lparr>request_queue := request_queue s @ [SHUTDOWN_MESSAGE]\<rparr>)"

definition RequestQueue_queue_status :: "'v service \<Rightarrow> int \<times> 'v service" where
  "RequestQueue_queue_status s = (int (length (request_queue s)), log Q_queue_status s)"

subsection \<open>Messaging and the pipe\<close>

text \<open>
  \<^verbatim>\<open>send_lifecycle_execution\<close> of the messaging service (an injected collaborator) is
  recorded as a call. The pipe is an unbounded channel: \<^verbatim>\<open>send\<close> appends at the write
  end, \<^verbatim>\<open>recv\<close> takes from the read end. Failures of the operating system's channel
  are not part of the model.
\<close>

definition send_lifecycle_execution ::
  "'v LifecycleExecution \<Rightarrow> 'v service \<Rightarrow> 'v service" where
  "send_lifecycle_execution r s = log (Send_lifecycle_execution r) s"

definition send :: "'v LifecycleExecution list \<Rightarrow> 'v LifecycleExecution \<Rightarrow> 'v LifecycleExecution list" where
  "send send_pipe r = send_pipe @ [r]"

section \<open>AnsibleProcessorService\<close>

text \<open>
  \<^verbatim>\<open>__init__\<close> (lines 38-78). Without \<^verbatim>\<open>messaging_service\<close> it raises. With
  \<^verbatim>\<open>use_pool\<close> set, \<^verbatim>\<open>self.queue_thread\<close> is never assigned and line 77 reads it, so
  construction ends in an \<^verbatim>\<open>AttributeError\<close>; the pool mode is therefore not part of
  the operations below (its processes, started before the error, run
  \<^verbatim>\<open>ansible_process_worker\<close>, which uses neither the counter nor the flag). Otherwise
  the counter starts at 0, the pipe is empty, no worker runs, and \<^verbatim>\<open>active\<close> is true.
  The queue is passed in with whatever it holds.
\<close>

definition AnsibleProcessorService_init ::
  "bool \<Rightarrow> ProcessProperties \<Rightarrow> 'v item list \<Rightarrow> exn + 'v service" where
  "AnsibleProcessorService_init has_messaging_service props queue =
     (if \<not> has_messaging_service then
        Inl (ValueError ''messaging_service argument not provided'')
      else if use_pool props then
        Inl (AttributeError ''queue_thread'')
      else
        Inr \<lparr>process_properties = props, request_queue = queue,
             counter = Counter_init 0, pipe = [], workers = [],
             active = True, trace = []\<rparr>)"

text \<open>
  \<^verbatim>\<open>run_lifecycle\<close> (lines 80-96). The result is the exception raised to the caller, if
  any, and the state after the call. Line 88 formats its debug message before the level
  is looked at, so \<^verbatim>\<open>request_queue.size()\<close> is called there whatever \<^verbatim>\<open>active\<close> is.
\<close>

definition run_lifecycle ::
  "'v request \<Rightarrow> 'v service \<Rightarrow> exn option \<times> 'v service" where
  "run_lifecycle request s =
     (case request ''request_id'' of
        None \<Rightarrow> (Some (ValueError ''Request must have a request_id''), s)
      | Some rid \<Rightarrow>
          if request ''lifecycle_name'' = None then
            (Some (ValueError ''Request must have a lifecycle_name''), s)
          else if request ''lifecycle_path'' = None then
            (Some (ValueError ''Request must have a lifecycle_path''), s)
          else
            let s1 = snd (RequestQueue_size s) in
            if active s1 = True then
              (case RequestQueue_size s1 of
                 (n, s2) \<Rightarrow>
                   if n \<ge> max_queue_size (process_properties s2) then
                     (None, send_lifecycle_execution
                        (LifecycleExecution rid STATUS_FAILED
                           (Some (FailureDetails FAILURE_CODE_INSUFFICIENT_CAPACITY
                              ''Request cannot be handled, driver is overloaded''))
                           Map.empty) s2)
                   else (None, RequestQueue_put (Request request) s2))
            else
              (None, send_lifecycle_execution
                 (LifecycleExecution rid STATUS_FAILED
                    (Some (FailureDetails FAILURE_CODE_INSUFFICIENT_CAPACITY
                       ''Driver is inactive''))
                    Map.empty) s1))"

text \<open>\<^verbatim>\<open>queue_status\<close> (lines 98-99).\<close>

definition queue_status :: "'v service \<Rightarrow> int \<times> 'v service" where
  "queue_status s = RequestQueue_queue_status s"

text \<open>
  \<^verbatim>\<open>shutdown\<close> (lines 124-130): clear the flag, shut the queue down, close the write end
  of the pipe. Closing a connection that is already closed does nothing.
\<close>

definition shutdown :: "'v service \<Rightarrow> exn option \<times> 'v service" where
  "shutdown s =
     (let s1 = s\<lparr>active := False\<rparr>;
          s2 = RequestQueue_shutdown s1
      in (None, log Pipe_close s2))"

section \<open>Worker isolates\<close>

text \<open>
  \<^verbatim>\<open>AnsibleWorkerThread.run\<close> (lines 196-213), on the worker's request and the pipe. The
  result is the exception that leaves \<^verbatim>\<open>run\<close>, if any, and the pipe afterwards. In the
  handler, \<^verbatim>\<open>self.request['request_id']\<close> raises \<^verbatim>\<open>KeyError\<close> when the key is absent.
\<close>

definition AnsibleWorkerThread_run ::
  "('v request \<Rightarrow> 'v outcome) \<Rightarrow> 'v request option \<Rightarrow> 'v LifecycleExecution list
     \<Rightarrow> exn option \<times> 'v LifecycleExecution list" where
  "AnsibleWorkerThread_run ansible_client request send_pipe =
     (case request of
        None \<Rightarrow> (None, send_pipe)
      | Some req \<Rightarrow>
          (case ansible_client req of
             Returns (Some resp) \<Rightarrow> (None, send send_pipe resp)
           | Returns None \<Rightarrow> (None, send_pipe)
           | Raises e \<Rightarrow>
               (case req ''request_id'' of
                  None \<Rightarrow> (Some (KeyError ''request_id''), send_pipe)
                | Some rid \<Rightarrow>
                    (None, send send_pipe
                       (LifecycleExecution rid STATUS_FAILED
                          (Some (FailureDetails FAILURE_CODE_INTERNAL_ERROR
                             (''Unexpected exception: '' @ str e)))
                          Map.empty)))))"

text \<open>
  \<^verbatim>\<open>AnsibleWorkerProcess.run\<close> (lines 228-248). It first resets the disposition of
  SIGCHLD, which is no part of the state here; the rest is the same text as the thread's.
\<close>

definition AnsibleWorkerProcess_run ::
  "('v request \<Rightarrow> 'v outcome) \<Rightarrow> 'v request option \<Rightarrow> 'v LifecycleExecution list
     \<Rightarrow> exn option \<times> 'v LifecycleExecution list" where
  "AnsibleWorkerProcess_run ansible_client request send_pipe =
     (case request of
        None \<Rightarrow> (None, send_pipe)
      | Some req \<Rightarrow>
          (case ansible_client req of
             Returns (Some resp) \<Rightarrow> (None, send send_pipe resp)
           | Returns None \<Rightarrow> (None, send_pipe)
           | Raises e \<Rightarrow>
               (case req ''request_id'' of
                  None \<Rightarrow> (Some (KeyError ''request_id''), send_pipe)
                | Some rid \<Rightarrow>
                    (None, send send_pipe
                       (LifecycleExecution rid STATUS_FAILED
                          (Some (FailureDetails FAILURE_CODE_INTERNAL_ERROR
                             (''Unexpected exception: '' @ str e)))
                          Map.empty)))))"

section \<open>QueueThread\<close>

datatype ctl = Continue | Break

text \<open>
  Exceptions that the runtime may deliver inside the \<^verbatim>\<open>try\<close> of lines 159-174: at
  \<^verbatim>\<open>self.counter.increment()\<close> and at \<^verbatim>\<open>worker.start()\<close> (a thread or a process that
  cannot be created). \<open>None\<close> is a normal return.
\<close>

record faults =
  increment_raises :: "exn option"
  start_raises :: "exn option"

definition no_faults :: faults where
  "no_faults = \<lparr>increment_raises = None, start_raises = None\<rparr>"

text \<open>
  \<^verbatim>\<open>worker.start()\<close> on a worker made for the request: it raises, or the worker is
  started.
\<close>

definition start ::
  "faults \<Rightarrow> variant \<Rightarrow> 'v request \<Rightarrow> 'v service \<Rightarrow> exn option \<times> 'v service" where
  "start flt v req s =
     (case start_raises flt of
        Some e \<Rightarrow> (Some e, s)
      | None \<Rightarrow> (None, log (Worker_start v req) (s\<lparr>workers := workers s @ [(v, req)]\<rparr>)))"

text \<open>
  The body of the \<^verbatim>\<open>try\<close> (lines 160-174): the exception that leaves it, or how the
  loop goes on. Its first branch repeats the sentinel test of line 155.
\<close>

definition spawn ::
  "faults \<Rightarrow> 'v item \<Rightarrow> 'v service \<Rightarrow> (exn + ctl) \<times> 'v service" where
  "spawn flt request s =
     (case request of
        SHUTDOWN_MESSAGE \<Rightarrow> (Inr Break, RequestQueue_task_done s)
      | Request req \<Rightarrow>
          (case increment_raises flt of
             Some e \<Rightarrow> (Inl e, s)
           | None \<Rightarrow>
               let s1 = s\<lparr>counter := increment (counter s)\<rparr> in
               if is_threaded (process_properties s1) then
                 (case start flt Thread req s1 of
                    (Some e, s2) \<Rightarrow> (Inl e, s2)
                  | (None, s2) \<Rightarrow> (Inr Continue, s2))
               else
                 (case start flt Process req s1 of
                    (Some e, s2) \<Rightarrow> (Inl e, s2)
                  | (None, s2) \<Rightarrow> (Inr Continue, s2))))"

text \<open>
  One iteration of the loop of \<^verbatim>\<open>QueueThread.run\<close> (lines 152-186). The \<^verbatim>\<open>finally\<close>
  of line 175 runs \<^verbatim>\<open>task_done\<close> however the \<^verbatim>\<open>try\<close> ends; an exception is then
  caught by the handler of line 184, which logs it, and the loop continues.
\<close>

definition QueueThread_iteration :: "faults \<Rightarrow> 'v service \<Rightarrow> ctl \<times> 'v service" where
  "QueueThread_iteration flt s =
     (case RequestQueue_next s of
        (None, s1) \<Rightarrow> (Continue, s1)
      | (Some SHUTDOWN_MESSAGE, s1) \<Rightarrow> (Break, RequestQueue_task_done s1)
      | (Some (Request req), s1) \<Rightarrow>
          if Counter_value (counter s1)
               < max_concurrent_ansible_processes (process_properties s1) then
            (case spawn flt (Request req) s1 of
               (Inl e, s2) \<Rightarrow> (Continue, RequestQueue_task_done s2)
             | (Inr c, s2) \<Rightarrow> (c, RequestQueue_task_done s2))
          else
            (Continue, RequestQueue_put (Request req) (RequestQueue_task_done s1)))"

text \<open>The loop test of line 151 followed by one iteration.\<close>

definition QueueThread_run :: "faults \<Rightarrow> 'v service \<Rightarrow> ctl \<times> 'v service" where
  "QueueThread_run flt s = (if active s then QueueThread_iteration flt s else (Break, s))"

section \<open>ResponsesThread\<close>

text \<open>
  One iteration of the loop of \<^verbatim>\<open>ResponsesThread.run\<close> (lines 259-269). On an empty pipe
  \<^verbatim>\<open>recv\<close> blocks, or raises \<^verbatim>\<open>EOFError\<close> once the write end is closed, which the
  handler ignores: nothing happens. The workers never write \<^verbatim>\<open>None\<close>, so a received
  result is forwarded.
\<close>

definition ResponsesThread_iteration :: "'v service \<Rightarrow> 'v service" where
  "ResponsesThread_iteration s =
     (case pipe s of
        [] \<Rightarrow> s
      | result # rest \<Rightarrow> send_lifecycle_execution result (s\<lparr>pipe := rest\<rparr>))"

definition ResponsesThread_run :: "'v service \<Rightarrow> 'v service" where
  "ResponsesThread_run s = (if active s then ResponsesThread_iteration s else s)"

section \<open>The system as interleaved operations\<close>

text \<open>
  A started worker runs at some later point, with the behaviour of the Ansible client
  at that call. An exception that leaves \<^verbatim>\<open>run\<close> ends the worker and changes nothing
  else.
\<close>

definition run_worker ::
  "nat \<Rightarrow> ('v request \<Rightarrow> 'v outcome) \<Rightarrow> 'v service \<Rightarrow> 'v service" where
  "run_worker i ansible_client s =
     (if i < length (workers s) then
        (case workers s ! i of
           (Thread, req) \<Rightarrow>
             s\<lparr>pipe := snd (AnsibleWorkerThread_run ansible_client (Some req) (pipe s)),
               workers := take i (workers s) @ drop (Suc i) (workers s)\<rparr>
         | (Process, req) \<Rightarrow>
             s\<lparr>pipe := snd (AnsibleWorkerProcess_run ansible_client (Some req) (pipe s)),
               workers := take i (workers s) @ drop (Suc i) (workers s)\<rparr>)
      else s)"

text \<open>
  The operations that act on the shared state, each taken as one step: the methods of
  the facade called from outside, a pass of either background loop, and the run of a
  started worker. A loop iteration is also a step of its own, without the loop test:
  the test may have been made before another thread's \<^verbatim>\<open>shutdown\<close>. \<^verbatim>\<open>sigint_handler\<close>
  is \<^verbatim>\<open>shutdown\<close> followed by the exit of the process.
\<close>

datatype 'v operation =
    Op_run_lifecycle "'v request"
  | Op_queue_status
  | Op_shutdown
  | Op_sigint_handler
  | Op_QueueThread_run faults
  | Op_QueueThread_iteration faults
  | Op_ResponsesThread_run
  | Op_ResponsesThread_iteration
  | Op_worker_run nat "'v request \<Rightarrow> 'v outcome"

fun step :: "'v operation \<Rightarrow> 'v service \<Rightarrow> 'v service" where
  "step (Op_run_lifecycle request) s = snd (run_lifecycle request s)"
| "step Op_queue_status s = snd (queue_status s)"
| "step Op_shutdown s = snd (shutdown s)"
| "step Op_sigint_handler s = snd (shutdown s)"
| "step (Op_QueueThread_run flt) s = snd (QueueThread_run flt s)"
| "step (Op_QueueThread_iteration flt) s = snd (QueueThread_iteration flt s)"
| "step Op_ResponsesThread_run s = ResponsesThread_run s"
| "step Op_ResponsesThread_iteration s = ResponsesThread_iteration s"
| "step (Op_worker_run i ansible_client) s = run_worker i ansible_client s"

fun exec :: "'v operation list \<Rightarrow> 'v service \<Rightarrow> 'v service" where
  "exec [] s = s"
| "exec (op # ops) s = exec ops (step op s)"

section \<open>Notions used in the statements\<close>

text \<open>The three fields \<^verbatim>\<open>run_lifecycle\<close> requires, in the order it tests them.\<close>

definition required_fields :: "string list" where
  "required_fields = [''request_id'', ''lifecycle_name'', ''lifecycle_path'']"

definition first_missing :: "'v request \<Rightarrow> string option" where
  "first_missing request = find (\<lambda>k. request k = None) required_fields"

text \<open>The results handed to the messaging service among some calls, in order.\<close>

fun results_sent :: "'v event list \<Rightarrow> 'v LifecycleExecution list" where
  "results_sent [] = []"
| "results_sent (Send_lifecycle_execution r # es) = r # results_sent es"
| "results_sent (e # es) = results_sent es"

text \<open>The items handed to \<^verbatim>\<open>put\<close> among some calls, in order.\<close>

fun items_put :: "'v event list \<Rightarrow> 'v item list" where
  "items_put [] = []"
| "items_put (Q_put x # es) = x # items_put es"
| "items_put (e # es) = items_put es"

text \<open>Concrete inputs: a well-formed request, and a service with one request queued.\<close>

definition install_request :: "string request" where
  "install_request =
     [''request_id'' \<mapsto> ''r1'', ''lifecycle_name'' \<mapsto> ''install'',
      ''lifecycle_path'' \<mapsto> ''./'']"

definition service0 :: "string service" where
  "service0 =
     \<lparr>process_properties = ProcessProperties_init\<lparr>max_queue_size := 1\<rparr>,
      request_queue = [Request install_request],
      counter = Counter_init 0, pipe = [], workers = [],
      active = True, trace = []\<rparr>"

definition stopped_service :: "string service" where
  "stopped_service = service0\<lparr>active := False\<rparr>"

text \<open>A dispatch iteration in which the worker cannot be started.\<close>

definition start_fails :: faults where
  "start_fails = \<lparr>increment_raises = None, start_raises = Some (Exception ''cannot start'')\<rparr>"

text \<open>
  A configuration whose limit on concurrent workers is above the largest value of the
  counter, the service constructed from it on an empty queue, and \<open>n\<close> rounds of a
  submission followed by a pass of the dispatch loop.
\<close>

definition large_properties :: ProcessProperties where
  "large_properties =
     ProcessProperties_init\<lparr>max_concurrent_ansible_processes := 2147483648,
       is_threaded := True\<rparr>"

definition fresh_service :: "string service" where
  "fresh_service =
     \<lparr>process_properties = large_properties, request_queue = [],
      counter = Counter_init 0, pipe = [], workers = [],
      active = True, trace = []\<rparr>"

definition submit_and_dispatch :: "nat \<Rightarrow> string operation list" where
  "submit_and_dispatch n =
     concat (replicate n [Op_run_lifecycle install_request, Op_QueueThread_run no_faults])"

text \<open>The service constructed from the default configuration on an empty queue.\<close>

definition default_service :: "string service" where
  "default_service =
     \<lparr>process_properties = ProcessProperties_init, request_queue = [],
      counter = Counter_init 0, pipe = [], workers = [],
      active = True, trace = []\<rparr>"

section \<open>Proofs\<close>

subsection \<open>Auxiliary facts\<close>

text \<open>
  The queue, messaging and logging operations unfold to updates of the state.
\<close>

lemmas queue_defs = RequestQueue_size_def RequestQueue_put_def RequestQueue_next_def
  RequestQueue_task_done_def RequestQueue_shutdown_def RequestQueue_queue_status_def
  send_lifecycle_execution_def log_def

lemma calls_same: "calls s s = []"
  by (simp add: calls_def)

text \<open>
  What each operation does to the flag, the counter and the configuration.
\<close>

lemma run_lifecycle_fields:
  "active (snd (run_lifecycle request s)) = active s"
  "counter (snd (run_lifecycle request s)) = counter s"
  "process_properties (snd (run_lifecycle request s)) = process_properties s"
  by (simp_all add: run_lifecycle_def queue_defs Let_def split: option.splits)

lemma queue_status_fields:
  "active (snd (queue_status s)) = active s"
  "counter (snd (queue_status s)) = counter s"
  "process_properties (snd (queue_status s)) = process_properties s"
  by (simp_all add: queue_status_def queue_defs)

lemma shutdown_fields:
  "\<not> active (snd (shutdown s))"
  "counter (snd (shutdown s)) = counter s"
  "process_properties (snd (shutdown s)) = process_properties s"
  by (simp_all add: shutdown_def queue_defs)

lemma QueueThread_iteration_fields:
  "active (snd (QueueThread_iteration flt s)) = active s"
  "process_properties (snd (QueueThread_iteration flt s)) = process_properties s"
  by (cases "increment_raises flt"; cases "start_raises flt";
      simp add: QueueThread_iteration_def spawn_def start_def queue_defs Let_def
        split: list.splits item.splits)+

lemma QueueThread_iteration_counter:
  "counter (snd (QueueThread_iteration flt s)) = counter s
     \<or> (counter (snd (QueueThread_iteration flt s)) = increment (counter s)
        \<and> Counter_value (counter s) < max_concurrent_ansible_processes (process_properties s))"
  by (cases "increment_raises flt"; cases "start_raises flt";
      simp add: QueueThread_iteration_def spawn_def start_def queue_defs Let_def
        split: list.splits item.splits)

lemma ResponsesThread_iteration_fields:
  "active (ResponsesThread_iteration s) = active s"
  "counter (ResponsesThread_iteration s) = counter s"
  "process_properties (ResponsesThread_iteration s) = process_properties s"
  by (simp_all add: ResponsesThread_iteration_def queue_defs split: list.splits)

lemma run_worker_fields:
  "active (run_worker i ansible_client s) = active s"
  "counter (run_worker i ansible_client s) = counter s"
  "process_properties (run_worker i ansible_client s) = process_properties s"
  by (simp_all add: run_worker_def split: prod.splits variant.splits)

text \<open>
  No step sets the flag, and no step changes the configuration.
\<close>

lemma step_active: "\<not> active s \<Longrightarrow> \<not> active (step op s)"
  by (cases op)
    (simp_all add: run_lifecycle_fields queue_status_fields shutdown_fields
      QueueThread_iteration_fields QueueThread_run_def ResponsesThread_run_def
      ResponsesThread_iteration_fields run_worker_fields)

lemma exec_inactive: "\<not> active s \<Longrightarrow> \<not> active (exec ops s)"
  by (induction ops arbitrary: s) (simp_all add: step_active)

lemma step_process_properties: "process_properties (step op s) = process_properties s"
  by (cases op)
    (simp_all add: run_lifecycle_fields queue_status_fields shutdown_fields
      QueueThread_iteration_fields QueueThread_run_def ResponsesThread_run_def
      ResponsesThread_iteration_fields run_worker_fields)

lemma exec_process_properties: "process_properties (exec ops s) = process_properties s"
  by (induction ops arbitrary: s) (simp_all add: step_process_properties)

lemma exec_append: "exec (xs @ ys) s = exec ys (exec xs s)"
  by (induction xs arbitrary: s) simp_all

text \<open>
  Below a limit that the counter can hold, \<^verbatim>\<open>increment\<close> does not wrap.
\<close>

lemma Counter_value_increment:
  assumes "Counter_value c < m" and "m \<le> 2147483647"
  shows "Counter_value (increment c) = Counter_value c + 1"
proof -
  have lo: "- (2 ^ 31) \<le> sint c"
    using sint_ge [of c] by simp
  have hi: "sint c + 1 < 2 ^ 31"
    using assms by (simp add: Counter_value_def)
  have "sint (c + 1) = signed_take_bit 31 (sint c + 1)"
    by (simp add: sint_word_ariths)
  also have "\<dots> = sint c + 1"
    using lo hi by (simp add: signed_take_bit_int_eq_self)
  finally show ?thesis
    by (simp add: Counter_value_def increment_def)
qed

lemma step_counter_cases:
  "counter (step op s) = counter s \<or> counter (step op s) = increment (counter s)"
proof (cases op)
  case (Op_QueueThread_run flt)
  then show ?thesis
    using QueueThread_iteration_counter [of flt s] by (auto simp: QueueThread_run_def)
next
  case (Op_QueueThread_iteration flt)
  then show ?thesis
    using QueueThread_iteration_counter [of flt s] by auto
qed (simp_all add: run_lifecycle_fields queue_status_fields shutdown_fields
      ResponsesThread_run_def ResponsesThread_iteration_fields run_worker_fields)

lemma step_counter:
  assumes "max_concurrent_ansible_processes (process_properties s) \<le> 2147483647"
  shows "Counter_value (counter s) \<le> Counter_value (counter (step op s))"
proof (cases op)
  case (Op_QueueThread_run flt)
  then show ?thesis
    using QueueThread_iteration_counter [of flt s] Counter_value_increment [OF _ assms]
    by (auto simp: QueueThread_run_def)
next
  case (Op_QueueThread_iteration flt)
  then show ?thesis
    using QueueThread_iteration_counter [of flt s] Counter_value_increment [OF _ assms]
    by auto
qed (simp_all add: run_lifecycle_fields queue_status_fields shutdown_fields
      ResponsesThread_run_def ResponsesThread_iteration_fields run_worker_fields)

lemma exec_counter:
  assumes "max_concurrent_ansible_processes (process_properties s) \<le> 2147483647"
  shows "Counter_value (counter s) \<le> Counter_value (counter (exec ops s))"
  using assms
proof (induction ops arbitrary: s)
  case Nil
  then show ?case by simp
next
  case (Cons op ops)
  have "Counter_value (counter s) \<le> Counter_value (counter (step op s))"
    using Cons.prems by (rule step_counter)
  also have "\<dots> \<le> Counter_value (counter (exec ops (step op s)))"
    using Cons.prems by (intro Cons.IH) (simp add: step_process_properties)
  finally show ?case by simp
qed

text \<open>
  With the limit above every value of the counter, each round of a submission and a
  dispatch pass starts one worker and leaves the queue empty again.
\<close>

lemma round_effect:
  fixes s :: "string service"
  assumes "request_queue s = []" and "active s"
    and "process_properties s = large_properties"
  shows "request_queue (exec (submit_and_dispatch 1) s) = []
     \<and> active (exec (submit_and_dispatch 1) s)
     \<and> process_properties (exec (submit_and_dispatch 1) s) = large_properties
     \<and> counter (exec (submit_and_dispatch 1) s) = counter s + 1"
proof -
  have "sint (counter s) < 2147483648"
    using sint_lt [of "counter s"] by simp
  then show ?thesis
    using assms
    by (simp add: submit_and_dispatch_def install_request_def run_lifecycle_def
        QueueThread_run_def QueueThread_iteration_def spawn_def start_def queue_defs
        no_faults_def large_properties_def ProcessProperties_init_def Counter_value_def
        increment_def Let_def)
qed

lemma submit_and_dispatch_Suc:
  "submit_and_dispatch (Suc n) = submit_and_dispatch 1 @ submit_and_dispatch n"
  by (simp add: submit_and_dispatch_def)

lemma rounds_effect:
  fixes s :: "string service"
  assumes "request_queue s = []" and "active s"
    and "process_properties s = large_properties"
  shows "request_queue (exec (submit_and_dispatch n) s) = []
     \<and> active (exec (submit_and_dispatch n) s)
     \<and> process_properties (exec (submit_and_dispatch n) s) = large_properties
     \<and> counter (exec (submit_and_dispatch n) s) = counter s + of_nat n"
  using assms
proof (induction n arbitrary: s)
  case 0
  then show ?case by (simp add: submit_and_dispatch_def)
next
  case (Suc n)
  let ?s1 = "exec (submit_and_dispatch 1) s"
  have one: "request_queue ?s1 = []" "active ?s1" "process_properties ?s1 = large_properties"
    "counter ?s1 = counter s + 1"
    using round_effect [OF Suc.prems] by simp_all
  show ?case
    using Suc.IH [OF one(1-3)] one(4)
    by (simp only: submit_and_dispatch_Suc exec_append) simp
qed

subsection \<open>Admission: \<^verbatim>\<open>run_lifecycle\<close>\<close>

text \<open>
  \<^bold>\<open>C1\<close> (amended). For a request with the three required fields, when \<^verbatim>\<open>active\<close> is true
  and the queue depth is at least \<^verbatim>\<open>max_queue_size\<close>, \<^verbatim>\<open>run_lifecycle\<close> returns normally
  and sends exactly one result to the messaging service, with the request's
  \<open>request_id\<close>, status FAILED, the failure code for insufficient capacity and the
  description "Request cannot be handled, driver is overloaded"; it calls \<^verbatim>\<open>size\<close> twice
  and never \<^verbatim>\<open>put\<close>, and changes nothing else.
\<close>

theorem run_lifecycle_overloaded:
  assumes "request ''request_id'' = Some rid"
    and "request ''lifecycle_name'' \<noteq> None"
    and "request ''lifecycle_path'' \<noteq> None"
    and "active s"
    and "int (length (request_queue s)) \<ge> max_queue_size (process_properties s)"
  shows "run_lifecycle request s =
           (None, s\<lparr>trace := trace s @
              [Q_size, Q_size,
               Send_lifecycle_execution
                 (LifecycleExecution rid STATUS_FAILED
                    (Some (FailureDetails FAILURE_CODE_INSUFFICIENT_CAPACITY
                       ''Request cannot be handled, driver is overloaded''))
                    Map.empty)]\<rparr>)
         \<and> results_sent (calls s (snd (run_lifecycle request s))) =
             [LifecycleExecution rid STATUS_FAILED
                (Some (FailureDetails FAILURE_CODE_INSUFFICIENT_CAPACITY
                   ''Request cannot be handled, driver is overloaded''))
                Map.empty]
         \<and> items_put (calls s (snd (run_lifecycle request s))) = []"
  using assms by (auto simp: run_lifecycle_def queue_defs calls_def)

text \<open>
  The theorem at a queue of depth 1 with \<^verbatim>\<open>max_queue_size\<close> 1.
\<close>

theorem run_lifecycle_overloaded_witness:
  "active service0
   \<and> int (length (request_queue service0)) \<ge> max_queue_size (process_properties service0)
   \<and> run_lifecycle install_request service0 =
           (None, service0\<lparr>trace := trace service0 @
              [Q_size, Q_size,
               Send_lifecycle_execution
                 (LifecycleExecution ''r1'' STATUS_FAILED
                    (Some (FailureDetails FAILURE_CODE_INSUFFICIENT_CAPACITY
                       ''Request cannot be handled, driver is overloaded''))
                    Map.empty)]\<rparr>)
   \<and> results_sent (calls service0 (snd (run_lifecycle install_request service0))) =
             [LifecycleExecution ''r1'' STATUS_FAILED
                (Some (FailureDetails FAILURE_CODE_INSUFFICIENT_CAPACITY
                   ''Request cannot be handled, driver is overloaded''))
                Map.empty]
   \<and> items_put (calls service0 (snd (run_lifecycle install_request service0))) = []"
proof -
  have fields: "install_request ''request_id'' = Some ''r1''"
    "install_request ''lifecycle_name'' \<noteq> None" "install_request ''lifecycle_path'' \<noteq> None"
    by (simp_all add: install_request_def)
  have act: "active service0"
    by (simp add: service0_def)
  have full: "int (length (request_queue service0)) \<ge> max_queue_size (process_properties service0)"
    by (simp add: service0_def ProcessProperties_init_def)
  show ?thesis
    using act full run_lifecycle_overloaded [OF fields act full] by blast
qed

text \<open>
  The claim C1 as stated gives the description as "driver is overloaded". On a full
  queue the one result sent is not the result with that description.
\<close>

theorem run_lifecycle_overloaded_description_counterexample:
  "install_request ''request_id'' = Some ''r1''
   \<and> install_request ''lifecycle_name'' \<noteq> None
   \<and> install_request ''lifecycle_path'' \<noteq> None
   \<and> active service0
   \<and> int (length (request_queue service0)) \<ge> max_queue_size (process_properties service0)
   \<and> results_sent (calls service0 (snd (run_lifecycle install_request service0))) \<noteq>
        [LifecycleExecution ''r1'' STATUS_FAILED
           (Some (FailureDetails FAILURE_CODE_INSUFFICIENT_CAPACITY ''driver is overloaded''))
           Map.empty]"
  by (simp add: install_request_def service0_def ProcessProperties_init_def
      run_lifecycle_def queue_defs calls_def)

text \<open>
  \<^bold>\<open>C2.\<close> When \<open>request_id\<close>, \<open>lifecycle_name\<close> or \<open>lifecycle_path\<close> is missing from the
  request, \<^verbatim>\<open>run_lifecycle\<close> raises a \<^verbatim>\<open>ValueError\<close> whose message names a field that
  is missing. It raises before any interaction with the queue: the call makes no call on
  any collaborator and leaves the state as it was, so no result is sent for the request
  then, and every later run of the system goes exactly as if the call had not been made.
\<close>

theorem run_lifecycle_missing_field:
  assumes "request ''request_id'' = None \<or> request ''lifecycle_name'' = None
             \<or> request ''lifecycle_path'' = None"
  shows "\<exists>field. field \<in> set required_fields \<and> request field = None
           \<and> run_lifecycle request s
               = (Some (ValueError (''Request must have a '' @ field)), s)
           \<and> calls s (snd (run_lifecycle request s)) = []
           \<and> (\<forall>ops. exec ops (snd (run_lifecycle request s)) = exec ops s)"
proof (cases "request ''request_id''")
  case None
  then have "run_lifecycle request s
      = (Some (ValueError (''Request must have a '' @ ''request_id'')), s)"
    by (simp add: run_lifecycle_def)
  with None show ?thesis
    by (intro exI [of _ "''request_id''"]) (simp add: required_fields_def calls_same)
next
  case (Some rid)
  show ?thesis
  proof (cases "request ''lifecycle_name''")
    case None
    with Some have "run_lifecycle request s
        = (Some (ValueError (''Request must have a '' @ ''lifecycle_name'')), s)"
      by (simp add: run_lifecycle_def)
    with None show ?thesis
      by (intro exI [of _ "''lifecycle_name''"]) (simp add: required_fields_def calls_same)
  next
    case name: (Some n)
    with Some assms have path: "request ''lifecycle_path'' = None"
      by simp
    with Some name have "run_lifecycle request s
        = (Some (ValueError (''Request must have a '' @ ''lifecycle_path'')), s)"
      by (simp add: run_lifecycle_def)
    with path show ?thesis
      by (intro exI [of _ "''lifecycle_path''"]) (simp add: required_fields_def calls_same)
  qed
qed

text \<open>
  The theorem at the well-formed request without its \<open>lifecycle_name\<close>.
\<close>

theorem run_lifecycle_missing_field_witness:
  "\<exists>field. field \<in> set required_fields
      \<and> (install_request(''lifecycle_name'' := None)) field = None
      \<and> run_lifecycle (install_request(''lifecycle_name'' := None)) service0
          = (Some (ValueError (''Request must have a '' @ field)), service0)
      \<and> calls service0 (snd (run_lifecycle (install_request(''lifecycle_name'' := None)) service0)) = []
      \<and> (\<forall>ops. exec ops (snd (run_lifecycle (install_request(''lifecycle_name'' := None)) service0)) = exec ops service0)"
  using run_lifecycle_missing_field [of "install_request(''lifecycle_name'' := None)" service0]
  by simp

text \<open>
  \<^bold>\<open>C3\<close> (amended). For a request with the three required fields, when \<^verbatim>\<open>active\<close> is
  false, \<^verbatim>\<open>run_lifecycle\<close> returns normally and sends exactly one result to the messaging
  service, with the request's \<open>request_id\<close>, status FAILED, the failure code for
  insufficient capacity and the description "Driver is inactive". It never calls
  \<^verbatim>\<open>put\<close> and the queue keeps its contents; its only call on the queue is the one
  \<^verbatim>\<open>size\<close> of the debug message of line 88, made before \<^verbatim>\<open>active\<close> is tested.
\<close>

theorem run_lifecycle_inactive:
  assumes "request ''request_id'' = Some rid"
    and "request ''lifecycle_name'' \<noteq> None"
    and "request ''lifecycle_path'' \<noteq> None"
    and "\<not> active s"
  shows "run_lifecycle request s =
           (None, s\<lparr>trace := trace s @
              [Q_size,
               Send_lifecycle_execution
                 (LifecycleExecution rid STATUS_FAILED
                    (Some (FailureDetails FAILURE_CODE_INSUFFICIENT_CAPACITY
                       ''Driver is inactive''))
                    Map.empty)]\<rparr>)
         \<and> results_sent (calls s (snd (run_lifecycle request s))) =
             [LifecycleExecution rid STATUS_FAILED
                (Some (FailureDetails FAILURE_CODE_INSUFFICIENT_CAPACITY
                   ''Driver is inactive''))
                Map.empty]
         \<and> items_put (calls s (snd (run_lifecycle request s))) = []"
  using assms by (auto simp: run_lifecycle_def queue_defs calls_def)

text \<open>
  The theorem at the service after its flag was cleared.
\<close>

theorem run_lifecycle_inactive_witness:
  "\<not> active stopped_service
   \<and> run_lifecycle install_request stopped_service =
           (None, stopped_service\<lparr>trace := trace stopped_service @
              [Q_size,
               Send_lifecycle_execution
                 (LifecycleExecution ''r1'' STATUS_FAILED
                    (Some (FailureDetails FAILURE_CODE_INSUFFICIENT_CAPACITY
                       ''Driver is inactive''))
                    Map.empty)]\<rparr>)
   \<and> results_sent (calls stopped_service (snd (run_lifecycle install_request stopped_service))) =
             [LifecycleExecution ''r1'' STATUS_FAILED
                (Some (FailureDetails FAILURE_CODE_INSUFFICIENT_CAPACITY
                   ''Driver is inactive''))
                Map.empty]
   \<and> items_put (calls stopped_service (snd (run_lifecycle install_request stopped_service))) = []"
proof -
  have fields: "install_request ''request_id'' = Some ''r1''"
    "install_request ''lifecycle_name'' \<noteq> None" "install_request ''lifecycle_path'' \<noteq> None"
    by (simp_all add: install_request_def)
  have inact: "\<not> active stopped_service"
    by (simp add: stopped_service_def)
  show ?thesis
    using inact run_lifecycle_inactive [OF fields inact] by blast
qed

text \<open>
  The claim C3 as stated says that neither \<^verbatim>\<open>size\<close> nor \<^verbatim>\<open>put\<close> is called. On an
  inactive service the call of \<^verbatim>\<open>size\<close> is among the calls made.
\<close>

theorem run_lifecycle_inactive_size_counterexample:
  "install_request ''request_id'' = Some ''r1''
   \<and> install_request ''lifecycle_name'' \<noteq> None
   \<and> install_request ''lifecycle_path'' \<noteq> None
   \<and> \<not> active stopped_service
   \<and> Q_size \<in> set (calls stopped_service (snd (run_lifecycle install_request stopped_service)))"
  by (simp add: install_request_def stopped_service_def service0_def run_lifecycle_def
      queue_defs calls_def)

subsection \<open>A worker whose client raises\<close>

text \<open>
  \<^bold>\<open>C4.\<close> In both variants of the worker, when the request is present, carries a
  \<open>request_id\<close>, and the call of the Ansible client raises \<open>e\<close>, \<^verbatim>\<open>run\<close> catches it: no
  exception leaves \<^verbatim>\<open>run\<close>, and exactly one result is written to the pipe, with that
  \<open>request_id\<close>, status FAILED, the failure code for an internal error, and a
  description that ends with the message of \<open>e\<close>.
\<close>

theorem worker_reports_exception:
  assumes "ansible_client req = Raises e"
    and "req ''request_id'' = Some rid"
  shows "AnsibleWorkerThread_run ansible_client (Some req) send_pipe =
           (None, send_pipe @
              [LifecycleExecution rid STATUS_FAILED
                 (Some (FailureDetails FAILURE_CODE_INTERNAL_ERROR
                    (''Unexpected exception: '' @ str e)))
                 Map.empty])
         \<and> AnsibleWorkerProcess_run ansible_client (Some req) send_pipe =
           (None, send_pipe @
              [LifecycleExecution rid STATUS_FAILED
                 (Some (FailureDetails FAILURE_CODE_INTERNAL_ERROR
                    (''Unexpected exception: '' @ str e)))
                 Map.empty])"
  using assms by (simp add: AnsibleWorkerThread_run_def AnsibleWorkerProcess_run_def send_def)

text \<open>
  The theorem at a client that always raises "unreachable host".
\<close>

theorem worker_reports_exception_witness:
  "AnsibleWorkerThread_run (\<lambda>r. Raises (Exception ''unreachable host'')) (Some install_request) [] =
           (None,
              [LifecycleExecution ''r1'' STATUS_FAILED
                 (Some (FailureDetails FAILURE_CODE_INTERNAL_ERROR
                    ''Unexpected exception: unreachable host''))
                 Map.empty])
         \<and> AnsibleWorkerProcess_run (\<lambda>r. Raises (Exception ''unreachable host'')) (Some install_request) [] =
           (None,
              [LifecycleExecution ''r1'' STATUS_FAILED
                 (Some (FailureDetails FAILURE_CODE_INTERNAL_ERROR
                    ''Unexpected exception: unreachable host''))
                 Map.empty])"
  using worker_reports_exception [of "\<lambda>r. Raises (Exception ''unreachable host'')"
      install_request "Exception ''unreachable host''" "''r1''" "[]"]
  by (simp add: install_request_def)

subsection \<open>The dispatch loop and the counter\<close>

text \<open>
  \<^bold>\<open>C5.\<close> An iteration of the dispatch loop that takes a request (not the sentinel)
  from the queue, in which \<^verbatim>\<open>increment\<close> and \<^verbatim>\<open>start\<close> return normally (their raising
  is the subject of C7): when the value of the counter is below
  \<^verbatim>\<open>max_concurrent_ansible_processes\<close>, the counter is incremented once and one worker,
  a thread or a process as configured, is started for the request; otherwise the counter
  is unchanged, no worker is started, and the same request is put back at the end of
  the queue. Nothing else changes, and the loop continues.
\<close>

theorem QueueThread_iteration_spawn_or_requeue:
  assumes "request_queue s = Request req # rest"
    and "increment_raises flt = None"
    and "start_raises flt = None"
  shows "QueueThread_iteration flt s =
     (Continue,
      if Counter_value (counter s)
           < max_concurrent_ansible_processes (process_properties s) then
        s\<lparr>request_queue := rest,
          counter := increment (counter s),
          workers := workers s @
            [(if is_threaded (process_properties s) then Thread else Process, req)],
          trace := trace s @
            [Q_next,
             Worker_start (if is_threaded (process_properties s) then Thread else Process) req,
             Q_task_done]\<rparr>
      else
        s\<lparr>request_queue := rest @ [Request req],
          trace := trace s @ [Q_next, Q_task_done, Q_put (Request req)]\<rparr>)"
  using assms
  by (simp add: QueueThread_iteration_def spawn_def start_def queue_defs)

text \<open>
  The theorem below the limit (counter 0, limit 10) and at the limit (counter 10).
\<close>

theorem QueueThread_iteration_spawn_or_requeue_witness:
  "QueueThread_iteration no_faults service0 =
     (Continue,
      service0\<lparr>request_queue := [], counter := 1,
        workers := [(Process, install_request)],
        trace := [Q_next, Worker_start Process install_request, Q_task_done]\<rparr>)
   \<and> QueueThread_iteration no_faults (service0\<lparr>counter := 10\<rparr>) =
     (Continue,
      service0\<lparr>counter := 10, request_queue := [Request install_request],
        trace := [Q_next, Q_task_done, Q_put (Request install_request)]\<rparr>)"
proof -
  have q: "request_queue service0 = Request install_request # []"
    by (simp add: service0_def)
  have q': "request_queue (service0\<lparr>counter := 10\<rparr>) = Request install_request # []"
    by (simp add: service0_def)
  have f: "increment_raises no_faults = None" "start_raises no_faults = None"
    by (simp_all add: no_faults_def)
  show ?thesis
    using QueueThread_iteration_spawn_or_requeue [OF q f]
      QueueThread_iteration_spawn_or_requeue [OF q' f]
    by (simp add: service0_def ProcessProperties_init_def Counter_init_def
        Counter_value_def increment_def)
qed

text \<open>
  \<^bold>\<open>C6\<close> (amended). The counter starts at 0, and from construction on every operation
  of the facade, the dispatch loop, the response thread and the workers either leaves
  the counter as it is or applies \<^verbatim>\<open>increment\<close> to it once: \<^verbatim>\<open>decrement\<close> is never
  applied. When \<^verbatim>\<open>max_concurrent_ansible_processes\<close> is at most 2147483647, the largest
  value of the 32-bit counter, the value of the counter never decreases along any
  sequence of operations.
\<close>

theorem counter_never_decreases:
  assumes "AnsibleProcessorService_init has_messaging_service props queue = Inr s0"
  shows "Counter_value (counter s0) = 0
     \<and> (counter (step op (exec ops s0)) = counter (exec ops s0)
        \<or> counter (step op (exec ops s0)) = increment (counter (exec ops s0)))
     \<and> (max_concurrent_ansible_processes props \<le> 2147483647 \<longrightarrow>
          Counter_value (counter (exec ops s0))
            \<le> Counter_value (counter (exec (ops @ later) s0)))"
proof -
  from assms have s0: "counter s0 = 0" "process_properties s0 = props"
    by (auto simp: AnsibleProcessorService_init_def Counter_init_def split: if_splits)
  have mono: "Counter_value (counter (exec ops s0))
      \<le> Counter_value (counter (exec (ops @ later) s0))"
    if "max_concurrent_ansible_processes props \<le> 2147483647"
  proof -
    have "max_concurrent_ansible_processes (process_properties (exec ops s0)) \<le> 2147483647"
      using that s0 by (simp add: exec_process_properties)
    then have "Counter_value (counter (exec ops s0))
        \<le> Counter_value (counter (exec later (exec ops s0)))"
      by (rule exec_counter)
    then show ?thesis by (simp add: exec_append)
  qed
  show ?thesis
    using s0 mono step_counter_cases [of op "exec ops s0"]
    by (simp add: Counter_value_def)
qed

text \<open>
  The theorem at the default configuration (limit 10), between two points of a run
  that submits a request, dispatches it, runs its worker and shuts down.
\<close>

theorem counter_never_decreases_witness:
  "AnsibleProcessorService_init True ProcessProperties_init [] = Inr default_service
   \<and> max_concurrent_ansible_processes ProcessProperties_init \<le> 2147483647
   \<and> Counter_value (counter default_service) = 0
   \<and> Counter_value (counter (exec [Op_run_lifecycle install_request] default_service))
       \<le> Counter_value (counter (exec ([Op_run_lifecycle install_request]
             @ [Op_QueueThread_run no_faults, Op_worker_run 0 (\<lambda>r. Returns None), Op_shutdown])
            default_service))"
proof -
  have init: "AnsibleProcessorService_init True ProcessProperties_init []
      = Inr default_service"
    by (simp add: AnsibleProcessorService_init_def default_service_def
        ProcessProperties_init_def)
  have bound: "max_concurrent_ansible_processes ProcessProperties_init \<le> 2147483647"
    by (simp add: ProcessProperties_init_def)
  show ?thesis
    using init bound counter_never_decreases [OF init] by blast
qed

text \<open>
  The claim C6 as stated has no condition on the configuration. With the limit set to
  2147483648 the test of line 158 always passes; after 2147483647 rounds from
  construction the counter reads 2147483647, and one more round makes it read
  -2147483648: the value has decreased, by \<^verbatim>\<open>increment\<close> alone.
\<close>

theorem counter_wraps_counterexample:
  "AnsibleProcessorService_init True large_properties [] = Inr fresh_service
   \<and> Counter_value (counter (exec (submit_and_dispatch 2147483647) fresh_service))
       = 2147483647
   \<and> Counter_value (counter (exec (submit_and_dispatch 2147483647 @ submit_and_dispatch 1)
        fresh_service)) = - 2147483648"
proof -
  have init: "AnsibleProcessorService_init True large_properties [] = Inr fresh_service"
    by (simp add: AnsibleProcessorService_init_def fresh_service_def large_properties_def
        ProcessProperties_init_def)
  have start: "request_queue fresh_service = []" "active fresh_service"
    "process_properties fresh_service = large_properties"
    by (simp_all add: fresh_service_def)
  have c0: "counter fresh_service = 0"
    by (simp add: fresh_service_def Counter_init_def)
  let ?s = "exec (submit_and_dispatch 2147483647) fresh_service"
  have before: "request_queue ?s = []" "active ?s" "process_properties ?s = large_properties"
    "counter ?s = 2147483647"
    using rounds_effect [OF start, of 2147483647] c0 by simp_all
  have after: "counter (exec (submit_and_dispatch 1) ?s) = 2147483648"
    using round_effect [OF before(1-3)] before(4) by simp
  show ?thesis
    using init before(4) after by (simp add: exec_append Counter_value_def)
qed

text \<open>
  \<^bold>\<open>C7.\<close> In an iteration of the dispatch loop that takes a request (not the sentinel)
  from the queue, \<^verbatim>\<open>task_done\<close> is called exactly once, whether or not \<^verbatim>\<open>increment\<close>
  or \<^verbatim>\<open>start\<close> raises, and the exception does not end the loop. Below the limit
  \<^verbatim>\<open>task_done\<close> is the last call, after the attempt to start the worker; at the limit
  it comes before the \<^verbatim>\<open>put\<close> that re-inserts the request.
\<close>

theorem QueueThread_iteration_task_done_once:
  assumes "request_queue s = Request req # rest"
  shows "fst (QueueThread_iteration flt s) = Continue
     \<and> count_list (calls s (snd (QueueThread_iteration flt s))) Q_task_done = 1
     \<and> calls s (snd (QueueThread_iteration flt s)) =
        (if Counter_value (counter s)
              < max_concurrent_ansible_processes (process_properties s) then
           Q_next #
           (if increment_raises flt = None \<and> start_raises flt = None then
              [Worker_start (if is_threaded (process_properties s) then Thread else Process) req]
            else []) @
           [Q_task_done]
         else [Q_next, Q_task_done, Q_put (Request req)])"
  using assms
  by (cases "increment_raises flt"; cases "start_raises flt")
    (simp_all add: QueueThread_iteration_def spawn_def start_def queue_defs calls_def
      Let_def)

text \<open>
  The theorem at an iteration in which the worker cannot be started, and at the limit.
\<close>

theorem QueueThread_iteration_task_done_once_witness:
  "request_queue service0 = Request install_request # []
   \<and> fst (QueueThread_iteration start_fails service0) = Continue
   \<and> count_list (calls service0 (snd (QueueThread_iteration start_fails service0))) Q_task_done = 1
   \<and> calls service0 (snd (QueueThread_iteration start_fails service0)) = [Q_next, Q_task_done]
   \<and> count_list (calls (service0\<lparr>counter := 10\<rparr>)
        (snd (QueueThread_iteration start_fails (service0\<lparr>counter := 10\<rparr>)))) Q_task_done = 1
   \<and> calls (service0\<lparr>counter := 10\<rparr>)
        (snd (QueueThread_iteration start_fails (service0\<lparr>counter := 10\<rparr>))) =
       [Q_next, Q_task_done, Q_put (Request install_request)]"
proof -
  have q: "request_queue service0 = Request install_request # []"
    by (simp add: service0_def)
  have q': "request_queue (service0\<lparr>counter := 10\<rparr>) = Request install_request # []"
    by (simp add: service0_def)
  show ?thesis
    using q QueueThread_iteration_task_done_once [OF q, of start_fails]
      QueueThread_iteration_task_done_once [OF q', of start_fails]
    by (simp add: service0_def start_fails_def ProcessProperties_init_def Counter_init_def
        Counter_value_def)
qed

subsection \<open>A worker whose client returns nothing\<close>

text \<open>
  \<^bold>\<open>C8.\<close> In both variants of the worker, when the call of the Ansible client returns
  \<^verbatim>\<open>None\<close> without raising, \<^verbatim>\<open>run\<close> ends normally and the pipe is as it was: nothing is
  written, of any status. \<^verbatim>\<open>run\<close> is all a worker does, so no result for the request
  reaches the response thread.
\<close>

theorem worker_empty_response:
  assumes "ansible_client req = Returns None"
  shows "AnsibleWorkerThread_run ansible_client (Some req) send_pipe = (None, send_pipe)
         \<and> AnsibleWorkerProcess_run ansible_client (Some req) send_pipe = (None, send_pipe)"
  using assms by (simp add: AnsibleWorkerThread_run_def AnsibleWorkerProcess_run_def)

text \<open>
  The theorem at a client that always returns \<^verbatim>\<open>None\<close>.
\<close>

theorem worker_empty_response_witness:
  "AnsibleWorkerThread_run (\<lambda>r. Returns None) (Some install_request) [] = (None, [])
   \<and> AnsibleWorkerProcess_run (\<lambda>r. Returns None) (Some install_request) [] = (None, [])"
  using worker_empty_response [of "\<lambda>r. Returns None" install_request "[]"]
  by simp

subsection \<open>Shutdown\<close>

text \<open>
  \<^bold>\<open>C9.\<close> A second call of \<^verbatim>\<open>shutdown\<close> does not raise; its calls are the queue's
  \<^verbatim>\<open>shutdown\<close> and the pipe's \<^verbatim>\<open>close\<close>, so it sends no result to the messaging
  service, and it writes nothing to the pipe. After \<^verbatim>\<open>shutdown\<close> the flag is false and
  stays false through every sequence of operations of the facade, the dispatch loop,
  the response thread and the workers.
\<close>

theorem shutdown_twice_one_way:
  "fst (shutdown (snd (shutdown s))) = None
   \<and> calls (snd (shutdown s)) (snd (shutdown (snd (shutdown s)))) = [Q_shutdown, Pipe_close]
   \<and> results_sent (calls (snd (shutdown s)) (snd (shutdown (snd (shutdown s))))) = []
   \<and> pipe (snd (shutdown (snd (shutdown s)))) = pipe (snd (shutdown s))
   \<and> \<not> active (exec ops (snd (shutdown s)))"
proof -
  have "\<not> active (exec ops (snd (shutdown s)))"
    by (rule exec_inactive) (rule shutdown_fields)
  then show ?thesis
    by (simp add: shutdown_def queue_defs calls_def)
qed

subsection \<open>Order of validation\<close>

text \<open>
  \<^bold>\<open>C10.\<close> Validation comes before the tests of activity and capacity, in a fixed order:
  for a request that lacks a required field, \<^verbatim>\<open>run_lifecycle\<close> raises \<^verbatim>\<open>ValueError\<close>
  naming the first missing field in the order \<open>request_id\<close>, \<open>lifecycle_name\<close>,
  \<open>lifecycle_path\<close>, whatever the state is: also when \<^verbatim>\<open>active\<close> is false, where no
  "Driver is inactive" result is produced (the state, and with it the calls made, is
  unchanged).
\<close>

theorem run_lifecycle_validation_first:
  assumes "first_missing request = Some field"
  shows "run_lifecycle request s = (Some (ValueError (''Request must have a '' @ field)), s)"
  using assms
  by (auto simp: first_missing_def required_fields_def run_lifecycle_def
      split: if_splits option.splits)

text \<open>
  The theorem at a request that lacks two fields, submitted to a service that was shut
  down: the error names \<open>lifecycle_name\<close>, the first of the two.
\<close>

theorem run_lifecycle_validation_first_witness:
  "first_missing (install_request(''lifecycle_name'' := None, ''lifecycle_path'' := None))
     = Some ''lifecycle_name''
   \<and> \<not> active stopped_service
   \<and> run_lifecycle (install_request(''lifecycle_name'' := None, ''lifecycle_path'' := None))
        stopped_service
      = (Some (ValueError ''Request must have a lifecycle_name''), stopped_service)"
proof -
  have m: "first_missing (install_request(''lifecycle_name'' := None, ''lifecycle_path'' := None))
     = Some ''lifecycle_name''"
    by (simp add: first_missing_def required_fields_def install_request_def)
  show ?thesis
    using m run_lifecycle_validation_first [OF m, of stopped_service]
    by (simp add: stopped_service_def)
qed

end
